theory Spec2Isabelle
  imports Main
begin

section \<open>JavaScript values of a request\<close>

text \<open>
  The values \<open>Backend/server.js\<close> finds in \<open>req.body\<close>: strings (every text part of a
  multipart form), arrays and objects (repeated and bracketed part names, or a JSON body),
  and the other JSON values. \<open>undefined\<close> is the absence of a value: a property that is
  not there is \<open>None\<close>. Numbers are the integers; strings are lists of 8-bit characters.
\<close>

datatype jsval =
    JNull
  | JBool bool
  | JNum int
  | JStr string
  | JArr "jsval list"
  | JObj "(string \<times> jsval) list"

type_synonym body = "string \<Rightarrow> jsval option"

text \<open>JavaScript's truthiness (\<open>!v\<close>, \<open>v && w\<close>, \<open>if (v)\<close>).\<close>

fun truthy :: "jsval option \<Rightarrow> bool" where
  "truthy None = False"
| "truthy (Some JNull) = False"
| "truthy (Some (JBool b)) = b"
| "truthy (Some (JNum n)) = (n \<noteq> 0)"
| "truthy (Some (JStr s)) = (s \<noteq> [])"
| "truthy (Some (JArr xs)) = True"
| "truthy (Some (JObj kvs)) = True"

section \<open>Strings and numbers\<close>

text \<open>
  \<open>String(v)\<close>, as \<open>parseInt\<close> and a template literal apply it to their argument.
  An array is its elements joined by commas (\<open>null\<close> gives the empty string there), an
  object is \<open>[object Object]\<close>.
\<close>

fun digits_of :: "nat \<Rightarrow> string" where
  "digits_of n =
     (if n < 10 then [''0123456789'' ! n]
      else digits_of (n div 10) @ [''0123456789'' ! (n mod 10)])"

declare digits_of.simps [simp del]

definition show_int :: "int \<Rightarrow> string" where
  "show_int i = (if i < 0 then CHR ''-'' # digits_of (nat (- i)) else digits_of (nat i))"

fun ToString :: "jsval \<Rightarrow> string"
  and join_elements :: "jsval list \<Rightarrow> string"
  and element_string :: "jsval \<Rightarrow> string" where
  "ToString JNull = ''null''"
| "ToString (JBool b) = (if b then ''true'' else ''false'')"
| "ToString (JNum n) = show_int n"
| "ToString (JStr s) = s"
| "ToString (JArr xs) = join_elements xs"
| "ToString (JObj kvs) = ''[object Object]''"
| "join_elements [] = []"
| "join_elements [x] = element_string x"
| "join_elements (x # y # ys) = element_string x @ '','' @ join_elements (y # ys)"
| "element_string JNull = []"
| "element_string (JBool b) = ToString (JBool b)"
| "element_string (JNum n) = ToString (JNum n)"
| "element_string (JStr s) = ToString (JStr s)"
| "element_string (JArr xs) = ToString (JArr xs)"
| "element_string (JObj kvs) = ToString (JObj kvs)"

text \<open>
  \<open>parseInt(s, 10)\<close>: leading white space is skipped, a sign is read, then the longest
  run of decimal digits; no digit at all is \<open>NaN\<close> (\<open>None\<close>). Whatever follows the
  digits is ignored.
\<close>

definition is_whitespace :: "char \<Rightarrow> bool" where
  "is_whitespace c = (of_char c \<in> set [9, 10, 11, 12, 13, 32, 160 :: nat])"

definition is_digit :: "char \<Rightarrow> bool" where
  "is_digit c = (48 \<le> (of_char c :: nat) \<and> (of_char c :: nat) \<le> 57)"

definition digit_val :: "char \<Rightarrow> nat" where
  "digit_val c = of_char c - 48"

definition decimal :: "string \<Rightarrow> nat" where
  "decimal ds = foldl (\<lambda>acc c. 10 * acc + digit_val c) 0 ds"

definition parse_digits :: "string \<Rightarrow> int option" where
  "parse_digits u =
     (let ds = takeWhile is_digit u in if ds = [] then None else Some (int (decimal ds)))"

definition parseInt :: "string \<Rightarrow> int option" where
  "parseInt s =
     (case dropWhile is_whitespace s of
        [] \<Rightarrow> None
      | c # cs \<Rightarrow>
          if c = CHR ''-'' then map_option uminus (parse_digits cs)
          else if c = CHR ''+'' then parse_digits cs
          else parse_digits (c # cs))"

section \<open>JSON text\<close>

text \<open>
  \<open>JSON.stringify\<close> and \<open>JSON.parse\<close> on the values above. The printer writes no white
  space and escapes a string as ECMAScript's \<open>QuoteJSONString\<close> does. The parser is a
  recursive descent over the text with the number of nested calls as fuel; \<open>JSON_parse\<close>
  gives it more fuel than the text has characters. A number with a fraction or an exponent,
  and an escape \<open>u\<close> with four hex digits above 255, are outside the values modelled: the
  parser gives \<open>None\<close> there.
\<close>

definition hex_digit :: "nat \<Rightarrow> char" where
  "hex_digit k = ''0123456789abcdef'' ! k"

definition escape_char :: "char \<Rightarrow> string" where
  "escape_char c =
     (if c = CHR 0x22 then [CHR 0x5C, CHR 0x22]
      else if c = CHR 0x5C then [CHR 0x5C, CHR 0x5C]
      else if c = CHR 0x08 then [CHR 0x5C, CHR ''b'']
      else if c = CHR 0x0C then [CHR 0x5C, CHR ''f'']
      else if c = CHR 0x0A then [CHR 0x5C, CHR ''n'']
      else if c = CHR 0x0D then [CHR 0x5C, CHR ''r'']
      else if c = CHR 0x09 then [CHR 0x5C, CHR ''t'']
      else if (of_char c :: nat) < 32 then
        [CHR 0x5C, CHR ''u'', CHR ''0'', CHR ''0'',
         hex_digit (of_char c div 16), hex_digit (of_char c mod 16)]
      else [c])"

definition quote :: "string \<Rightarrow> string" where
  "quote s = CHR 0x22 # concat (map escape_char s) @ [CHR 0x22]"

fun JSON_stringify :: "jsval \<Rightarrow> string"
  and stringify_elements :: "jsval list \<Rightarrow> string"
  and stringify_members :: "(string \<times> jsval) list \<Rightarrow> string" where
  "JSON_stringify JNull = ''null''"
| "JSON_stringify (JBool b) = (if b then ''true'' else ''false'')"
| "JSON_stringify (JNum n) = show_int n"
| "JSON_stringify (JStr s) = quote s"
| "JSON_stringify (JArr xs) = ''['' @ stringify_elements xs @ '']''"
| "JSON_stringify (JObj kvs) = ''{'' @ stringify_members kvs @ ''}''"
| "stringify_elements [] = []"
| "stringify_elements [x] = JSON_stringify x"
| "stringify_elements (x # y # ys) = JSON_stringify x @ '','' @ stringify_elements (y # ys)"
| "stringify_members [] = []"
| "stringify_members [(k, v)] = quote k @ '':'' @ JSON_stringify v"
| "stringify_members ((k, v) # m # ms) =
     quote k @ '':'' @ JSON_stringify v @ '','' @ stringify_members (m # ms)"

definition is_json_ws :: "char \<Rightarrow> bool" where
  "is_json_ws c = (c = CHR 0x20 \<or> c = CHR 0x09 \<or> c = CHR 0x0A \<or> c = CHR 0x0D)"

definition skip_ws :: "string \<Rightarrow> string" where
  "skip_ws s = dropWhile is_json_ws s"

definition hex_val :: "char \<Rightarrow> nat option" where
  "hex_val c =
     (let n = (of_char c :: nat)
      in if 48 \<le> n \<and> n \<le> 57 then Some (n - 48)
         else if 97 \<le> n \<and> n \<le> 102 then Some (n - 87)
         else if 65 \<le> n \<and> n \<le> 70 then Some (n - 55)
         else None)"

definition hex4 :: "string \<Rightarrow> nat option" where
  "hex4 s =
     (case s of
        a # b # c # d # _ \<Rightarrow>
          (case (hex_val a, hex_val b, hex_val c, hex_val d) of
             (Some w, Some x, Some y, Some z) \<Rightarrow> Some (((w * 16 + x) * 16 + y) * 16 + z)
           | _ \<Rightarrow> None)
      | _ \<Rightarrow> None)"

definition simple_escape :: "char \<Rightarrow> char option" where
  "simple_escape e =
     (if e = CHR 0x22 then Some (CHR 0x22)
      else if e = CHR 0x5C then Some (CHR 0x5C)
      else if e = CHR ''/'' then Some (CHR ''/'')
      else if e = CHR ''b'' then Some (CHR 0x08)
      else if e = CHR ''f'' then Some (CHR 0x0C)
      else if e = CHR ''n'' then Some (CHR 0x0A)
      else if e = CHR ''r'' then Some (CHR 0x0D)
      else if e = CHR ''t'' then Some (CHR 0x09)
      else None)"

definition push :: "'a \<Rightarrow> ('a list \<times> string) option \<Rightarrow> ('a list \<times> string) option" where
  "push x r = map_option (\<lambda>(xs, rest). (x # xs, rest)) r"

fun unescape :: "string \<Rightarrow> (string \<times> string) option" where
  "unescape [] = None"
| "unescape (c # cs) =
     (if c = CHR 0x22 then Some ([], cs)
      else if c = CHR 0x5C then
        (case cs of
           [] \<Rightarrow> None
         | e # es \<Rightarrow>
             if e = CHR ''u'' then
               (case hex4 es of
                  None \<Rightarrow> None
                | Some n \<Rightarrow> if n < 256 then push (char_of n) (unescape (drop 4 es)) else None)
             else
               (case simple_escape e of
                  None \<Rightarrow> None
                | Some d \<Rightarrow> push d (unescape es)))
      else if (of_char c :: nat) < 32 then None
      else push c (unescape cs))"

definition parse_number :: "string \<Rightarrow> (jsval \<times> string) option" where
  "parse_number s =
     (let neg = (take 1 s = ''-'');
          u = (if neg then drop 1 s else s);
          ds = takeWhile is_digit u;
          rest = dropWhile is_digit u
      in if ds = [] then None
         else if 1 < length ds \<and> take 1 ds = ''0'' then None
         else if take 1 rest = ''.'' \<or> take 1 rest = ''e'' \<or> take 1 rest = ''E'' then None
         else Some (JNum (if neg then - int (decimal ds) else int (decimal ds)), rest))"

fun parse_value :: "nat \<Rightarrow> string \<Rightarrow> (jsval \<times> string) option"
  and parse_elements :: "nat \<Rightarrow> string \<Rightarrow> (jsval list \<times> string) option"
  and parse_members :: "nat \<Rightarrow> string \<Rightarrow> ((string \<times> jsval) list \<times> string) option" where
  "parse_value 0 s = None"
| "parse_value (Suc n) s =
     (case skip_ws s of
        [] \<Rightarrow> None
      | c # cs \<Rightarrow>
          if c = CHR 0x22 then map_option (\<lambda>(t, r). (JStr t, r)) (unescape cs)
          else if c = CHR ''['' then
            (if take 1 (skip_ws cs) = '']'' then Some (JArr [], drop 1 (skip_ws cs))
             else map_option (\<lambda>(vs, r). (JArr vs, r)) (parse_elements n cs))
          else if c = CHR ''{'' then
            (if take 1 (skip_ws cs) = ''}'' then Some (JObj [], drop 1 (skip_ws cs))
             else map_option (\<lambda>(kvs, r). (JObj kvs, r)) (parse_members n cs))
          else if take 4 (c # cs) = ''true'' then Some (JBool True, drop 4 (c # cs))
          else if take 5 (c # cs) = ''false'' then Some (JBool False, drop 5 (c # cs))
          else if take 4 (c # cs) = ''null'' then Some (JNull, drop 4 (c # cs))
          else parse_number (c # cs))"
| "parse_elements 0 s = None"
| "parse_elements (Suc n) s =
     (case parse_value n s of
        None \<Rightarrow> None
      | Some (v, r) \<Rightarrow>
          (case skip_ws r of
             [] \<Rightarrow> None
           | d # ds \<Rightarrow>
               if d = CHR '','' then push v (parse_elements n ds)
               else if d = CHR '']'' then Some ([v], ds)
               else None))"
| "parse_members 0 s = None"
| "parse_members (Suc n) s =
     (case skip_ws s of
        [] \<Rightarrow> None
      | q # qs \<Rightarrow>
          if q \<noteq> CHR 0x22 then None
          else
            (case unescape qs of
               None \<Rightarrow> None
             | Some (k, r) \<Rightarrow>
                 (case skip_ws r of
                    [] \<Rightarrow> None
                  | col # r1 \<Rightarrow>
                      if col \<noteq> CHR '':'' then None
                      else
                        (case parse_value n r1 of
                           None \<Rightarrow> None
                         | Some (v, r2) \<Rightarrow>
                             (case skip_ws r2 of
                                [] \<Rightarrow> None
                              | d # ds \<Rightarrow>
                                  if d = CHR '','' then push (k, v) (parse_members n ds)
                                  else if d = CHR ''}'' then Some ([(k, v)], ds)
                                  else None)))))"

definition JSON_parse :: "string \<Rightarrow> jsval option" where
  "JSON_parse s =
     (case parse_value (Suc (length s)) s of
        None \<Rightarrow> None
      | Some (v, r) \<Rightarrow> if skip_ws r = [] then Some v else None)"


text \<open>What may follow a value inside a JSON text: nothing, a comma or a closing bracket.\<close>

definition delimited :: "string \<Rightarrow> bool" where
  "delimited rest =
     (rest = [] \<or> hd rest = CHR '','' \<or> hd rest = CHR '']'' \<or> hd rest = CHR ''}'')"

section \<open>Required fields (server.js, lines 321-331)\<close>

definition requiredFields :: "string list" where
  "requiredFields =
    [''full_name'', ''email'', ''mobile'', ''dob'', ''parent_name'', ''gender'', ''nationality'',
     ''current_address'', ''permanent_address'', ''state'', ''city'', ''zipcode'',
     ''emergency_contact'', ''ssc_board'', ''ssc_year'', ''ssc_percentage'', ''job_role'',
     ''preferred_location'', ''notice_period'', ''skills'', ''experience_status'']"

text \<open>\<open>requiredFields.filter(field => !req.body[field] && req.body[field] !== '')\<close>\<close>

definition missingFields :: "body \<Rightarrow> string list" where
  "missingFields b =
     filter (\<lambda>field. \<not> truthy (b field) \<and> b field \<noteq> Some (JStr [])) requiredFields"

section \<open>Exceptions and responses\<close>

text \<open>
  A JavaScript exception with its message: \<open>new Error(m)\<close>, and the \<open>TypeError\<close> a
  property read on \<open>null\<close> or \<open>undefined\<close> throws.
\<close>

datatype exn = Error string | TypeError string

fun message :: "exn \<Rightarrow> string" where
  "message (Error m) = m"
| "message (TypeError m) = m"

text \<open>
  What the store holds in a column and what \<open>pool.query\<close> takes as a parameter.
  \<open>SqlFloat s\<close> stands for the number \<open>parseFloat\<close> reads from \<open>s\<close>, \<open>SqlTime t\<close> for the
  \<open>Date\<close> of clock reading \<open>t\<close>, \<open>SqlParam v\<close> for a boolean, array or object handed
  to the driver as it is.
\<close>

datatype sqlval =
    SqlNull
  | SqlText string
  | SqlInt int
  | SqlFloat string
  | SqlTime nat
  | SqlParam jsval

type_synonym row = "(string \<times> sqlval) list"

text \<open>
  A response is \<open>res.status(n).json(...)\<close>: the status and the JSON object sent.
  \<open>Failure e m\<close> is \<open>{success: false, error: e}\<close>, with \<open>missing: m\<close> when there is one;
  the others are the \<open>{success: true, ...}\<close> objects of the handlers.
\<close>

datatype payload =
    Failure string "string list option"
  | Submitted int
  | Fetched row jsval
  | Updated int
  | Deleted int
  | Cleared

datatype response = Response nat payload

fun status_code :: "response \<Rightarrow> nat" where
  "status_code (Response n p) = n"

text \<open>The \<open>catch\<close> block of every handler: status 500 with the exception's message.\<close>

definition caught :: "exn \<Rightarrow> response" where
  "caught e = Response 500 (Failure (message e) None)"

section \<open>Integer fields (server.js, lines 334-349)\<close>

definition sanitizeInteger :: "jsval option \<Rightarrow> string \<Rightarrow> bool \<Rightarrow> exn + int option" where
  "sanitizeInteger v fieldName isNullable =
     (if v = Some (JStr []) \<or> v = None \<or> v = Some JNull then
        (if isNullable then Inr None
         else Inl (Error (''Invalid '' @ fieldName @
                          '': empty value not allowed for non-nullable field'')))
      else
        (case v of
           None \<Rightarrow> Inr None
         | Some w \<Rightarrow>
             (case parseInt (ToString w) of
                None \<Rightarrow>
                  Inl (Error (''Invalid '' @ fieldName @ '': '' @ [CHR 0x22] @ ToString w @
                              [CHR 0x22] @ '' is not a valid integer''))
              | Some parsed \<Rightarrow> Inr (Some parsed))))"

section \<open>Optional sections (server.js, lines 352-369)\<close>

text \<open>The test \<open>req.body[field] && req.body[field] !== ''\<close> of \<open>some\<close> and \<open>every\<close>.\<close>

definition field_filled :: "body \<Rightarrow> string \<Rightarrow> bool" where
  "field_filled b field = (truthy (b field) \<and> b field \<noteq> Some (JStr []))"

definition validateEducationSection :: "body \<Rightarrow> string list \<Rightarrow> bool" where
  "validateEducationSection b fields =
     (if list_ex (field_filled b) fields then list_all (field_filled b) fields else True)"

text \<open>A group of fields some of which are filled and some are not.\<close>

definition partially_filled :: "body \<Rightarrow> string list \<Rightarrow> bool" where
  "partially_filled b fs = (list_ex (field_filled b) fs \<and> \<not> list_all (field_filled b) fs)"

definition intermediate_fields :: "string list" where
  "intermediate_fields = [''intermediate_board'', ''intermediate_year'', ''intermediate_percentage'']"

definition graduation_fields :: "string list" where
  "graduation_fields =
     [''college_name'', ''qualification'', ''branch'', ''graduation_year'', ''graduation_percentage'']"


definition intermediateValid :: "body \<Rightarrow> bool" where
  "intermediateValid b = validateEducationSection b intermediate_fields"

definition graduationValid :: "body \<Rightarrow> bool" where
  "graduationValid b = validateEducationSection b graduation_fields"

definition experienceValid :: "body \<Rightarrow> bool" where
  "experienceValid b =
     (b ''experience_status'' \<noteq> Some (JStr ''Experienced'') \<or>
      (truthy (b ''years_experience'') \<and> truthy (b ''company_name'') \<and>
       truthy (b ''designation'') \<and> truthy (b ''work_location'') \<and>
       truthy (b ''start_date'') \<and> truthy (b ''end_date'')))"

section \<open>Additional education (server.js, lines 372-391)\<close>

text \<open>
  The \<open>try\<close> block: a string is parsed, anything else is taken as it is, and what is not
  an array throws; \<open>None\<close> is the \<open>catch\<close> (status 400). A falsy value leaves the empty
  array.
\<close>

definition decode_additional_education :: "jsval option \<Rightarrow> jsval list option" where
  "decode_additional_education ae =
     (if truthy ae then
        (case ae of
           Some (JStr s) \<Rightarrow>
             (case JSON_parse s of Some (JArr xs) \<Rightarrow> Some xs | _ \<Rightarrow> None)
         | Some (JArr xs) \<Rightarrow> Some xs
         | _ \<Rightarrow> None)
      else Some [])"

text \<open>
  \<open>edu.name\<close> for the four names the loop reads: a property of an object (the last
  one of that name), \<open>undefined\<close> on a string, number, boolean or array, and a
  \<open>TypeError\<close> on \<open>null\<close>.
\<close>

fun property :: "jsval \<Rightarrow> string \<Rightarrow> exn + jsval option" where
  "property JNull name =
     Inl (TypeError (''Cannot read properties of null (reading '' @ [CHR 0x27] @ name @
                     [CHR 0x27] @ '')''))"
| "property (JObj kvs) name = Inr (map_of (rev kvs) name)"
| "property (JBool b) name = Inr None"
| "property (JNum n) name = Inr None"
| "property (JStr s) name = Inr None"
| "property (JArr xs) name = Inr None"

text \<open>\<open>!edu.institution || !edu.qualification || !edu.year || !edu.percentage\<close>\<close>

definition entry_incomplete :: "jsval \<Rightarrow> exn + bool" where
  "entry_incomplete edu =
     (case property edu ''institution'' of
        Inl e \<Rightarrow> Inl e
      | Inr institution \<Rightarrow>
          if \<not> truthy institution then Inr True
          else
            (case property edu ''qualification'' of
               Inl e \<Rightarrow> Inl e
             | Inr qualification \<Rightarrow>
                 if \<not> truthy qualification then Inr True
                 else
                   (case property edu ''year'' of
                      Inl e \<Rightarrow> Inl e
                    | Inr year \<Rightarrow>
                        if \<not> truthy year then Inr True
                        else
                          (case property edu ''percentage'' of
                             Inl e \<Rightarrow> Inl e
                           | Inr percentage \<Rightarrow> Inr (\<not> truthy percentage)))))"


text \<open>The \<open>for\<close> loop: \<open>Some r\<close> when it sends \<open>r\<close> (or throws), \<open>None\<close> when it ends.\<close>

fun check_entries :: "jsval list \<Rightarrow> response option" where
  "check_entries [] = None"
| "check_entries (edu # rest) =
     (case entry_incomplete edu of
        Inl e \<Rightarrow> Some (caught e)
      | Inr True \<Rightarrow> Some (Response 400 (Failure ''Incomplete additional education data'' None))
      | Inr False \<Rightarrow> check_entries rest)"

section \<open>The applications table (server.js, lines 60-122)\<close>

text \<open>
  The columns of \<open>CREATE TABLE applications\<close>: name, declared type, whether the column
  is \<open>NOT NULL\<close> and whether it is \<open>UNIQUE\<close> (\<open>PRIMARY KEY\<close> is both).
\<close>

datatype column_def = Column string string bool bool

fun col_name :: "column_def \<Rightarrow> string" where
  "col_name (Column n t nn u) = n"

fun not_null :: "column_def \<Rightarrow> bool" where
  "not_null (Column n t nn u) = nn"

fun is_unique :: "column_def \<Rightarrow> bool" where
  "is_unique (Column n t nn u) = u"

definition applications_table :: "column_def list" where
  "applications_table =
    [Column ''id'' ''SERIAL PRIMARY KEY'' True True,
     Column ''full_name'' ''VARCHAR(255)'' True False,
     Column ''email'' ''VARCHAR(255)'' True True,
     Column ''mobile'' ''VARCHAR(20)'' True False,
     Column ''dob'' ''DATE'' True False,
     Column ''parent_name'' ''VARCHAR(255)'' True False,
     Column ''gender'' ''VARCHAR(50)'' True False,
     Column ''nationality'' ''VARCHAR(100)'' True False,
     Column ''marital_status'' ''VARCHAR(50)'' False False,
     Column ''current_address'' ''TEXT'' True False,
     Column ''permanent_address'' ''TEXT'' True False,
     Column ''state'' ''VARCHAR(100)'' True False,
     Column ''city'' ''VARCHAR(100)'' True False,
     Column ''zipcode'' ''VARCHAR(20)'' True False,
     Column ''emergency_contact'' ''VARCHAR(255)'' True False,
     Column ''ssc_board'' ''VARCHAR(255)'' True False,
     Column ''ssc_year'' ''INTEGER'' True False,
     Column ''ssc_percentage'' ''VARCHAR(10)'' True False,
     Column ''intermediate_board'' ''VARCHAR(255)'' False False,
     Column ''intermediate_year'' ''INTEGER'' False False,
     Column ''intermediate_percentage'' ''VARCHAR(10)'' False False,
     Column ''college_name'' ''VARCHAR(255)'' False False,
     Column ''qualification'' ''VARCHAR(255)'' False False,
     Column ''branch'' ''VARCHAR(255)'' False False,
     Column ''graduation_year'' ''INTEGER'' False False,
     Column ''graduation_percentage'' ''VARCHAR(10)'' False False,
     Column ''additional_education'' ''JSONB'' False False,
     Column ''job_role'' ''VARCHAR(255)'' True False,
     Column ''preferred_location'' ''VARCHAR(255)'' True False,
     Column ''notice_period'' ''VARCHAR(100)'' True False,
     Column ''expected_salary'' ''NUMERIC'' False False,
     Column ''skills'' ''TEXT'' True False,
     Column ''experience_status'' ''VARCHAR(50)'' True False,
     Column ''years_experience'' ''INTEGER'' False False,
     Column ''company_name'' ''VARCHAR(255)'' False False,
     Column ''designation'' ''VARCHAR(255)'' False False,
     Column ''work_location'' ''VARCHAR(255)'' False False,
     Column ''start_date'' ''VARCHAR(20)'' False False,
     Column ''end_date'' ''VARCHAR(20)'' False False,
     Column ''last_salary'' ''NUMERIC'' False False,
     Column ''alt_mobile'' ''VARCHAR(20)'' False False,
     Column ''linkedin'' ''VARCHAR(255)'' False False,
     Column ''github'' ''VARCHAR(255)'' False False,
     Column ''certifications'' ''TEXT'' False False,
     Column ''reference_name'' ''VARCHAR(255)'' False False,
     Column ''reference_email'' ''VARCHAR(255)'' False False,
     Column ''resume_path'' ''VARCHAR(255)'' True False,
     Column ''cover_letter_path'' ''VARCHAR(255)'' False False,
     Column ''submission_date'' ''TIMESTAMP'' True False,
     Column ''status'' ''VARCHAR(50)'' False False]"

text \<open>
  The store: the rows of the table, each a list of column and value, and the next value
  of the \<open>SERIAL\<close> sequence behind \<open>id\<close>. It enforces the constraints the table
  declares. What a column's type does to a value (a length limit, the syntax of a date)
  is not modelled: a value is stored as the parameter the query gave.
\<close>

record database =
  rows :: "row list"
  serial :: int

definition column :: "row \<Rightarrow> string \<Rightarrow> sqlval" where
  "column r c = (case map_of r c of None \<Rightarrow> SqlNull | Some v \<Rightarrow> v)"

definition has_id :: "int \<Rightarrow> row \<Rightarrow> bool" where
  "has_id i r = (column r ''id'' = SqlInt i)"

datatype pg_error = Not_null_violation string | Unique_violation string

definition constraint_name :: "string \<Rightarrow> string" where
  "constraint_name c =
     (if c = ''id'' then ''applications_pkey'' else ''applications_'' @ c @ ''_key'')"

fun pg_message :: "pg_error \<Rightarrow> string" where
  "pg_message (Not_null_violation c) =
     ''null value in column '' @ [CHR 0x22] @ c @ [CHR 0x22] @ '' of relation '' @
     [CHR 0x22] @ ''applications'' @ [CHR 0x22] @ '' violates not-null constraint''"
| "pg_message (Unique_violation c) =
     ''duplicate key value violates unique constraint '' @ [CHR 0x22] @ constraint_name c @
     [CHR 0x22]"

text \<open>
  \<open>INSERT INTO applications (cols) VALUES (vals) RETURNING id\<close>. The new row takes the
  sequence's next value, which is used up whether or not the row is kept; a \<open>NOT NULL\<close>
  column left null and a \<open>UNIQUE\<close> column whose value an existing row has are errors.
\<close>

definition pg_insert :: "database \<Rightarrow> string list \<Rightarrow> sqlval list \<Rightarrow> (pg_error + int) \<times> database" where
  "pg_insert db cols vals =
     (let r = (''id'', SqlInt (serial db)) # zip cols vals;
          db' = db\<lparr>serial := serial db + 1\<rparr>
      in case find (\<lambda>c. not_null c \<and> column r (col_name c) = SqlNull) applications_table of
           Some c \<Rightarrow> (Inl (Not_null_violation (col_name c)), db')
         | None \<Rightarrow>
             (case find (\<lambda>c. is_unique c \<and>
                           list_ex (\<lambda>r'. column r' (col_name c) = column r (col_name c)) (rows db))
                     applications_table of
                Some c \<Rightarrow> (Inl (Unique_violation (col_name c)), db')
              | None \<Rightarrow> (Inr (serial db), db'\<lparr>rows := rows db @ [r]\<rparr>)))"

section \<open>Submission (server.js, lines 295-448)\<close>

text \<open>
  \<open>req.files\<close>: \<open>None\<close> when the request was not multipart (\<open>undefined\<close>), else for each
  file field that was uploaded the path of its first file.
\<close>

type_synonym files = "(string \<Rightarrow> string option) option"

text \<open>How the driver sends a JavaScript value: \<open>undefined\<close> and \<open>null\<close> as \<open>NULL\<close>.\<close>

fun param :: "jsval option \<Rightarrow> sqlval" where
  "param None = SqlNull"
| "param (Some JNull) = SqlNull"
| "param (Some (JStr s)) = SqlText s"
| "param (Some (JNum n)) = SqlInt n"
| "param (Some (JBool b)) = SqlParam (JBool b)"
| "param (Some (JArr xs)) = SqlParam (JArr xs)"
| "param (Some (JObj kvs)) = SqlParam (JObj kvs)"

fun int_param :: "int option \<Rightarrow> sqlval" where
  "int_param None = SqlNull"
| "int_param (Some n) = SqlInt n"

text \<open>\<open>v ? parseFloat(v) : null\<close>\<close>

definition float_param :: "jsval option \<Rightarrow> sqlval" where
  "float_param v =
     (if truthy v then (case v of None \<Rightarrow> SqlNull | Some w \<Rightarrow> SqlFloat (ToString w))
      else SqlNull)"

fun path_param :: "string option \<Rightarrow> sqlval" where
  "path_param None = SqlNull"
| "path_param (Some p) = SqlText p"

definition insert_columns :: "string list" where
  "insert_columns =
    [''full_name'', ''email'', ''mobile'', ''dob'', ''parent_name'', ''gender'', ''nationality'',
     ''marital_status'', ''current_address'', ''permanent_address'', ''state'', ''city'',
     ''zipcode'', ''emergency_contact'', ''ssc_board'', ''ssc_year'', ''ssc_percentage'',
     ''intermediate_board'', ''intermediate_year'', ''intermediate_percentage'',
     ''college_name'', ''qualification'', ''branch'', ''graduation_year'',
     ''graduation_percentage'', ''additional_education'', ''job_role'', ''preferred_location'',
     ''notice_period'', ''expected_salary'', ''skills'', ''experience_status'',
     ''years_experience'', ''company_name'', ''designation'', ''work_location'', ''start_date'',
     ''end_date'', ''last_salary'', ''alt_mobile'', ''linkedin'', ''github'', ''certifications'',
     ''reference_name'', ''reference_email'', ''resume_path'', ''cover_letter_path'',
     ''submission_date'', ''status'']"

text \<open>
  The row an insertion of \<open>vals\<close> adds, and the state of a store that only ever ran the
  handlers below: every \<open>id\<close> came from the sequence and is below its next value, no two
  rows share an \<open>id\<close>, and no two share an \<open>email\<close>.
\<close>

definition inserted_row :: "database \<Rightarrow> sqlval list \<Rightarrow> row" where
  "inserted_row db vals = (''id'', SqlInt (serial db)) # zip insert_columns vals"

fun id_below :: "int \<Rightarrow> sqlval \<Rightarrow> bool" where
  "id_below n (SqlInt i) = (i < n)"
| "id_below n SqlNull = False"
| "id_below n (SqlText s) = False"
| "id_below n (SqlFloat s) = False"
| "id_below n (SqlTime t) = False"
| "id_below n (SqlParam v) = False"

definition consistent :: "database \<Rightarrow> bool" where
  "consistent db =
     (list_all (\<lambda>r. id_below (serial db) (column r ''id'')) (rows db) \<and>
      distinct (map (\<lambda>r. column r ''id'') (rows db)) \<and>
      distinct (map (\<lambda>r. column r ''email'') (rows db)))"

text \<open>The array \<open>values\<close> (lines 421-432), in the order of \<open>insert_columns\<close>.\<close>

definition query_values ::
  "body \<Rightarrow> int option \<Rightarrow> int option \<Rightarrow> int option \<Rightarrow> int option \<Rightarrow> jsval list \<Rightarrow>
   string option \<Rightarrow> string option \<Rightarrow> nat \<Rightarrow> sqlval list" where
  "query_values b sanitizedSscYear sanitizedIntermediateYear sanitizedGraduationYear
       sanitizedYearsExperience additionalEducation resumePath coverLetterPath now =
    [param (b ''full_name''), param (b ''email''), param (b ''mobile''), param (b ''dob''),
     param (b ''parent_name''), param (b ''gender''), param (b ''nationality''),
     param (b ''marital_status''), param (b ''current_address''),
     param (b ''permanent_address''), param (b ''state''), param (b ''city''),
     param (b ''zipcode''), param (b ''emergency_contact''), param (b ''ssc_board''),
     int_param sanitizedSscYear, param (b ''ssc_percentage''), param (b ''intermediate_board''),
     int_param sanitizedIntermediateYear, param (b ''intermediate_percentage''),
     param (b ''college_name''), param (b ''qualification''), param (b ''branch''),
     int_param sanitizedGraduationYear, param (b ''graduation_percentage''),
     SqlText (JSON_stringify (JArr additionalEducation)), param (b ''job_role''),
     param (b ''preferred_location''), param (b ''notice_period''),
     float_param (b ''expected_salary''), param (b ''skills''), param (b ''experience_status''),
     int_param sanitizedYearsExperience, param (b ''company_name''), param (b ''designation''),
     param (b ''work_location''), param (b ''start_date''), param (b ''end_date''),
     float_param (b ''last_salary''), param (b ''alt_mobile''), param (b ''linkedin''),
     param (b ''github''), param (b ''certifications''), param (b ''reference_name''),
     param (b ''reference_email''), path_param resumePath, path_param coverLetterPath,
     SqlTime now, SqlText ''Pending'']"

text \<open>
  The four calls of \<open>sanitizeInteger\<close> in their order (lines 346-349), then the handler
  up to the query: \<open>Inl r\<close> when it has sent \<open>r\<close> (a \<open>return res.status\<close> or an
  exception caught at the end), \<open>Inr vals\<close> when it goes on to insert \<open>vals\<close>.
\<close>

definition sanitized_integers ::
  "body \<Rightarrow> exn + (int option \<times> int option \<times> int option \<times> int option)" where
  "sanitized_integers b =
     (case sanitizeInteger (b ''ssc_year'') ''ssc_year'' False of
        Inl e \<Rightarrow> Inl e
      | Inr sanitizedSscYear \<Rightarrow>
          (case sanitizeInteger (b ''intermediate_year'') ''intermediate_year'' True of
             Inl e \<Rightarrow> Inl e
           | Inr sanitizedIntermediateYear \<Rightarrow>
               (case sanitizeInteger (b ''graduation_year'') ''graduation_year'' True of
                  Inl e \<Rightarrow> Inl e
                | Inr sanitizedGraduationYear \<Rightarrow>
                    (case sanitizeInteger (b ''years_experience'') ''years_experience'' True of
                       Inl e \<Rightarrow> Inl e
                     | Inr sanitizedYearsExperience \<Rightarrow>
                         Inr (sanitizedSscYear, sanitizedIntermediateYear,
                              sanitizedGraduationYear, sanitizedYearsExperience)))))"

definition prepare_submission :: "body \<Rightarrow> files \<Rightarrow> nat \<Rightarrow> response + sqlval list" where
  "prepare_submission b fls now =
     (if missingFields b \<noteq> [] then
        Inl (Response 400 (Failure ''Missing required fields'' (Some (missingFields b))))
      else
        (case sanitized_integers b of
           Inl e \<Rightarrow> Inl (caught e)
         | Inr (sanitizedSscYear, sanitizedIntermediateYear, sanitizedGraduationYear,
                sanitizedYearsExperience) \<Rightarrow>
             if \<not> intermediateValid b \<or> \<not> graduationValid b \<or> \<not> experienceValid b then
               Inl (Response 400 (Failure ''Incomplete optional section data'' None))
             else
               (case decode_additional_education (b ''additional_education'') of
                  None \<Rightarrow>
                    Inl (Response 400 (Failure ''Invalid additional_education format'' None))
                | Some additionalEducation \<Rightarrow>
                    (case check_entries additionalEducation of
                       Some r \<Rightarrow> Inl r
                     | None \<Rightarrow>
                         (case fls of
                            None \<Rightarrow>
                              Inl (caught (TypeError
                                (''Cannot read properties of undefined (reading '' @
                                 [CHR 0x27] @ ''resume'' @ [CHR 0x27] @ '')'')))
                          | Some uploaded \<Rightarrow>
                              if uploaded ''resume'' = None \<or> uploaded ''resume'' = Some [] then
                                Inl (Response 400 (Failure ''Resume is required'' None))
                              else
                                Inr (query_values b sanitizedSscYear sanitizedIntermediateYear
                                       sanitizedGraduationYear sanitizedYearsExperience
                                       additionalEducation (uploaded ''resume'')
                                       (uploaded ''cover_letter'') now))))))"

definition submit :: "body \<Rightarrow> files \<Rightarrow> nat \<Rightarrow> database \<Rightarrow> response \<times> database" where
  "submit b fls now db =
     (case prepare_submission b fls now of
        Inl r \<Rightarrow> (r, db)
      | Inr vals \<Rightarrow>
          (case pg_insert db insert_columns vals of
             (Inl err, db') \<Rightarrow> (caught (Error (pg_message err)), db')
           | (Inr new_id, db') \<Rightarrow> (Response 200 (Submitted new_id), db')))"

section \<open>Reading an application (server.js, lines 451-495)\<close>

text \<open>
  The \<open>:id\<close> of a path is taken as the integer it denotes. The value the driver hands
  back for a column is the text, integer or \<open>null\<close> stored there (the handlers read only
  text columns this way); \<open>additional_education\<close> comes back as its text, which the
  handler parses (had the driver parsed it already, the handler would keep the array it
  finds).
\<close>

fun fetched :: "sqlval \<Rightarrow> jsval option" where
  "fetched SqlNull = Some JNull"
| "fetched (SqlText s) = Some (JStr s)"
| "fetched (SqlInt n) = Some (JNum n)"
| "fetched (SqlParam v) = Some v"
| "fetched (SqlFloat s) = Some (JStr s)"
| "fetched (SqlTime t) = Some (JNum (int t))"

text \<open>Lines 467-481: what \<open>application.additional_education\<close> is replaced by.\<close>

definition stored_additional_education :: "jsval option \<Rightarrow> jsval" where
  "stored_additional_education ae =
     (if truthy ae then
        (case ae of
           Some (JStr s) \<Rightarrow>
             (case JSON_parse s of Some (JArr xs) \<Rightarrow> JArr xs | _ \<Rightarrow> JArr [])
         | Some (JArr xs) \<Rightarrow> JArr xs
         | _ \<Rightarrow> JArr [])
      else JArr [])"

definition get_application :: "int \<Rightarrow> database \<Rightarrow> response" where
  "get_application i db =
     (case filter (has_id i) (rows db) of
        [] \<Rightarrow> Response 404 (Failure ''Application not found'' None)
      | application # _ \<Rightarrow>
          Response 200
            (Fetched application
               (stored_additional_education (fetched (column application ''additional_education'')))))"

section \<open>Updating the status (server.js, lines 517-542)\<close>

definition allowed_statuses :: "string list" where
  "allowed_statuses = [''Pending'', ''Approved'', ''Rejected'', ''Under Review'']"

fun set_column :: "string \<Rightarrow> sqlval \<Rightarrow> row \<Rightarrow> row" where
  "set_column c v [] = [(c, v)]"
| "set_column c v (kv # r) = (if fst kv = c then (c, v) # r else kv # set_column c v r)"

text \<open>\<open>UPDATE applications SET status = $1 WHERE id = $2 RETURNING id\<close>: the ids returned.\<close>

definition pg_update_status :: "database \<Rightarrow> sqlval \<Rightarrow> int \<Rightarrow> int list \<times> database" where
  "pg_update_status db v i =
     (map (\<lambda>r. i) (filter (has_id i) (rows db)),
      db\<lparr>rows := map (\<lambda>r. if has_id i r then set_column ''status'' v r else r) (rows db)\<rparr>)"

definition update_status :: "int \<Rightarrow> jsval option \<Rightarrow> database \<Rightarrow> response \<times> database" where
  "update_status i status db =
     (if \<not> list_ex (\<lambda>s. status = Some (JStr s)) allowed_statuses then
        (Response 400 (Failure ''Invalid status'' None), db)
      else
        (case pg_update_status db (param status) i of
           ([], db') \<Rightarrow> (Response 404 (Failure ''Application not found'' None), db')
         | (returned # _, db') \<Rightarrow> (Response 200 (Updated returned), db')))"

section \<open>Deleting (server.js, lines 545-609)\<close>

text \<open>
  The upload directory: for each path, nothing, a file \<open>unlink\<close> removes, or an entry
  \<open>unlink\<close> fails on (no permission, in use, a directory).
\<close>

datatype file_state = Removable | Locked

type_synonym filesystem = "string \<Rightarrow> file_state option"

definition existsSync :: "filesystem \<Rightarrow> string \<Rightarrow> bool" where
  "existsSync fs p = (fs p \<noteq> None)"

definition unlinkSync :: "filesystem \<Rightarrow> string \<Rightarrow> exn + filesystem" where
  "unlinkSync fs p =
     (case fs p of
        Some Removable \<Rightarrow> Inr (fs(p := None))
      | Some Locked \<Rightarrow>
          Inl (Error (''EPERM: operation not permitted, unlink '' @ [CHR 0x27] @ p @ [CHR 0x27]))
      | None \<Rightarrow>
          Inl (Error (''ENOENT: no such file or directory, unlink '' @ [CHR 0x27] @ p @
                      [CHR 0x27])))"

text \<open>\<open>if (path && fs.existsSync(path)) fs.unlinkSync(path)\<close>, for a column as fetched.\<close>

definition unlink_if_exists :: "filesystem \<Rightarrow> jsval option \<Rightarrow> exn + filesystem" where
  "unlink_if_exists fs path =
     (case path of
        Some (JStr p) \<Rightarrow> if p \<noteq> [] \<and> existsSync fs p then unlinkSync fs p else Inr fs
      | _ \<Rightarrow> Inr fs)"

definition pg_delete :: "database \<Rightarrow> int \<Rightarrow> int list \<times> database" where
  "pg_delete db i =
     (map (\<lambda>r. i) (filter (has_id i) (rows db)),
      db\<lparr>rows := filter (\<lambda>r. \<not> has_id i r) (rows db)\<rparr>)"

definition delete_application ::
  "int \<Rightarrow> database \<Rightarrow> filesystem \<Rightarrow> response \<times> database \<times> filesystem" where
  "delete_application i db fs =
     (case filter (has_id i) (rows db) of
        [] \<Rightarrow> (Response 404 (Failure ''Application not found'' None), db, fs)
      | found # _ \<Rightarrow>
          (case pg_delete db i of
             (deleted, db') \<Rightarrow>
               (case unlink_if_exists fs (fetched (column found ''resume_path'')) of
                  Inl e \<Rightarrow> (caught e, db', fs)
                | Inr fs1 \<Rightarrow>
                    (case unlink_if_exists fs1 (fetched (column found ''cover_letter_path'')) of
                       Inl e \<Rightarrow> (caught e, db', fs1)
                     | Inr fs2 \<Rightarrow>
                         (case deleted of
                            [] \<Rightarrow>
                              (caught (TypeError
                                 (''Cannot read properties of undefined (reading '' @
                                  [CHR 0x27] @ ''id'' @ [CHR 0x27] @ '')'')), db', fs2)
                          | d # _ \<Rightarrow> (Response 200 (Deleted d), db', fs2))))))"

text \<open>
  \<open>DELETE /api/clear\<close>: \<open>fs.readdir\<close> and \<open>fs.unlink\<close> take callbacks that only log an
  error, so every removable file goes (none when the directory cannot be read) and the
  response does not depend on it; \<open>TRUNCATE ... RESTART IDENTITY\<close> empties the table and
  restarts the sequence.
\<close>

definition clear_applications ::
  "bool \<Rightarrow> database \<Rightarrow> filesystem \<Rightarrow> response \<times> database \<times> filesystem" where
  "clear_applications readdir_fails db fs =
     (Response 200 Cleared,
      \<lparr>rows = [], serial = 1\<rparr>,
      (if readdir_fails then fs
       else (\<lambda>p. case fs p of Some Removable \<Rightarrow> None | other \<Rightarrow> other)))"

section \<open>Schema synchronisation (server.js, lines 124-249)\<close>

text \<open>
  An entry of \<open>expectedColumns\<close>: \<open>name\<close>, \<open>type\<close>, \<open>nullable\<close> (absent for \<open>id\<close>) and
  \<open>defaultValue\<close>.
\<close>

datatype expected_column = Expected string string "bool option" jsval



fun nullable :: "expected_column \<Rightarrow> bool option" where
  "nullable (Expected n t nl d) = nl"






text \<open>
  The statements the synchronisation sends, and the store as it sees it: the table's
  columns (\<open>None\<close> before the table exists), every statement sent so far in order, and
  the console. Which statements the store refuses is a parameter \<open>refuses\<close>;
  \<open>pool.query\<close> then throws.
\<close>

datatype statement =
    Create_table
  | Select_columns
  | Add_column string string string
  | Backfill string jsval
  | Set_not_null string












definition until_refused :: "(statement \<Rightarrow> bool) \<Rightarrow> statement list \<Rightarrow> statement list" where
  "until_refused refuses qs =
     takeWhile (\<lambda>q. \<not> refuses q) qs @ take 1 (dropWhile (\<lambda>q. \<not> refuses q) qs)"



section \<open>A sample submission\<close>

text \<open>A form with every required field filled and no optional section, and its upload.\<close>

definition sample_fields :: "(string \<times> jsval) list" where
  "sample_fields =
    [(''full_name'', JStr ''Asha Rao''), (''email'', JStr ''asha@example.org''),
     (''mobile'', JStr ''9000000000''), (''dob'', JStr ''1999-01-31''),
     (''parent_name'', JStr ''R Rao''), (''gender'', JStr ''Female''),
     (''nationality'', JStr ''Indian''), (''current_address'', JStr ''1 Main Road''),
     (''permanent_address'', JStr ''1 Main Road''), (''state'', JStr ''Telangana''),
     (''city'', JStr ''Hyderabad''), (''zipcode'', JStr ''500001''),
     (''emergency_contact'', JStr ''9000000001''), (''ssc_board'', JStr ''CBSE''),
     (''ssc_year'', JStr ''2014''), (''ssc_percentage'', JStr ''91''),
     (''job_role'', JStr ''Developer''), (''preferred_location'', JStr ''Hyderabad''),
     (''notice_period'', JStr ''30 days''), (''skills'', JStr ''SQL''),
     (''experience_status'', JStr ''Fresher'')]"

definition sample_body :: body where
  "sample_body = map_of sample_fields"

text \<open>The sample form without the fields named, and with fields added or replaced.\<close>

definition sample_without :: "string list \<Rightarrow> body" where
  "sample_without names = map_of (filter (\<lambda>kv. fst kv \<notin> set names) sample_fields)"

definition sample_with :: "(string \<times> jsval) list \<Rightarrow> body" where
  "sample_with extra = map_of (extra @ sample_fields)"




definition sample_files :: files where
  "sample_files = Some (map_of [(''resume'', ''Uploads/resume-1700000000000-1.pdf'')])"

definition empty_database :: database where
  "empty_database = \<lparr>rows = [], serial = 1\<rparr>"

text \<open>The store after the sample form was submitted to the empty store.\<close>

definition sample_database :: database where
  "sample_database = snd (submit sample_body sample_files 7 empty_database)"




definition locked_uploads :: filesystem where
  "locked_uploads = map_of [(''Uploads/resume-1700000000000-1.pdf'', Locked)]"

section \<open>Required fields are all reported\<close>

lemma missingFields_iff:
  "f \<in> set (missingFields b) \<longleftrightarrow>
     f \<in> set requiredFields \<and> \<not> truthy (b f) \<and> b f \<noteq> Some (JStr [])"
  by (simp add: missingFields_def)

lemma prepare_submission_missing:
  "missingFields b \<noteq> [] \<Longrightarrow>
   prepare_submission b fls now =
     Inl (Response 400 (Failure ''Missing required fields'' (Some (missingFields b))))"
  by (simp add: prepare_submission_def)

text \<open>
  C1. When a required field is absent from the body, the submit operation answers 400
  \<open>Missing required fields\<close> and stores nothing; its \<open>missing\<close> list is the required
  fields filtered in their order, so it holds every absent required field, and a field
  given as the empty string is never in it.
\<close>

theorem missing_fields_all_reported:
  assumes "\<exists>f \<in> set requiredFields. b f = None"
  shows "submit b fls now db =
           (Response 400 (Failure ''Missing required fields'' (Some (missingFields b))), db) \<and>
         (\<forall>f \<in> set requiredFields. b f = None \<longrightarrow> f \<in> set (missingFields b)) \<and>
         (\<forall>f. b f = Some (JStr []) \<longrightarrow> f \<notin> set (missingFields b))"
proof -
  from assms obtain f where "f \<in> set requiredFields" "b f = None" by blast
  then have "f \<in> set (missingFields b)" by (simp add: missingFields_iff)
  then have "missingFields b \<noteq> []" by auto
  then have "submit b fls now db =
      (Response 400 (Failure ''Missing required fields'' (Some (missingFields b))), db)"
    by (simp add: submit_def prepare_submission_missing)
  then show ?thesis by (simp add: missingFields_iff)
qed

theorem missing_fields_all_reported_witness:
  "(\<exists>f \<in> set requiredFields. sample_without [''full_name'', ''skills''] f = None) \<and>
   missingFields (sample_without [''full_name'', ''skills'']) = [''full_name'', ''skills''] \<and>
   submit (sample_without [''full_name'', ''skills'']) sample_files 7 empty_database =
     (Response 400
        (Failure ''Missing required fields''
           (Some (missingFields (sample_without [''full_name'', ''skills''])))),
      empty_database)"
proof -
  let ?b = "sample_without [''full_name'', ''skills'']"
  have "?b ''full_name'' = None" by code_simp
  then have h: "\<exists>f \<in> set requiredFields. ?b f = None"
    by (auto simp: requiredFields_def)
  have m: "missingFields ?b = [''full_name'', ''skills'']" by code_simp
  show ?thesis
    using h m conjunct1 [OF missing_fields_all_reported [OF h, of sample_files 7 empty_database]]
    by blast
qed

section \<open>Optional sections\<close>

lemma prepare_submission_Inl_submit:
  "prepare_submission b fls now = Inl r \<Longrightarrow> submit b fls now db = (r, db)"
  by (simp add: submit_def)

lemma validateEducationSection_iff:
  "validateEducationSection b fs \<longleftrightarrow> \<not> partially_filled b fs"
  by (auto simp: validateEducationSection_def partially_filled_def)

lemma field_filled_string: "b f = Some (JStr s) \<Longrightarrow> field_filled b f = (s \<noteq> [])"
  by (simp add: field_filled_def)

lemma field_filled_absent: "b f = None \<Longrightarrow> \<not> field_filled b f"
  by (simp add: field_filled_def)

lemma prepare_submission_sections:
  assumes "missingFields b = []" "sanitized_integers b = Inr ints"
    and "\<not> intermediateValid b \<or> \<not> graduationValid b \<or> \<not> experienceValid b"
  shows "prepare_submission b fls now =
           Inl (Response 400 (Failure ''Incomplete optional section data'' None))"
  using assms by (cases ints) (auto simp: prepare_submission_def)

lemma check_entries_rejects: "check_entries es = Some r \<Longrightarrow> status_code r \<noteq> 200"
  by (induction es) (auto simp: caught_def split: sum.splits bool.splits)

lemma prepare_submission_rejects:
  "prepare_submission b fls now = Inl r \<Longrightarrow> status_code r \<noteq> 200"
  by (auto simp: prepare_submission_def caught_def Let_def dest: check_entries_rejects
      split: if_splits sum.splits option.splits prod.splits)

lemma invalid_sections_rejected:
  assumes "\<not> intermediateValid b \<or> \<not> graduationValid b \<or> \<not> experienceValid b"
  shows "\<exists>r. prepare_submission b fls now = Inl r"
  using assms
  by (auto simp: prepare_submission_def split: sum.splits prod.splits)

lemma rejected_submit:
  assumes "prepare_submission b fls now = Inl r"
  shows "status_code (fst (submit b fls now db)) \<noteq> 200 \<and> snd (submit b fls now db) = db"
  using assms prepare_submission_rejects [OF assms] by (simp add: submit_def)



lemma incomplete_not_sent_when_valid:
  assumes "intermediateValid b" "graduationValid b" "experienceValid b"
  shows "prepare_submission b fls now \<noteq>
           Inl (Response 400 (Failure ''Incomplete optional section data'' None))"
proof -
  have c: "check_entries es \<noteq> Some (Response 400 (Failure ''Incomplete optional section data'' None))"
    for es
    by (induction es) (auto simp: caught_def split: sum.splits bool.splits)
  show ?thesis using assms c
    by (auto simp: prepare_submission_def caught_def split: sum.splits option.splits prod.splits)
qed

text \<open>
  C2, as amended. A submission with a partially filled intermediate or graduation group
  is never accepted and stores nothing; when it has passed the required-field check and
  the four integer fields have been sanitised without an exception, the response is 400
  \<open>Incomplete optional section data\<close>. Each of the two checks holds exactly when its
  group is not partially filled, so a group that is wholly absent or wholly present
  passes, and when the three section checks hold that response is not sent.
\<close>

theorem partial_section_rejected:
  "(partially_filled b intermediate_fields \<or> partially_filled b graduation_fields \<longrightarrow>
      status_code (fst (submit b fls now db)) \<noteq> 200 \<and> snd (submit b fls now db) = db \<and>
      (missingFields b = [] \<and> (\<exists>ints. sanitized_integers b = Inr ints) \<longrightarrow>
         submit b fls now db =
           (Response 400 (Failure ''Incomplete optional section data'' None), db))) \<and>
   (intermediateValid b \<longleftrightarrow> \<not> partially_filled b intermediate_fields) \<and>
   (graduationValid b \<longleftrightarrow> \<not> partially_filled b graduation_fields) \<and>
   (intermediateValid b \<and> graduationValid b \<and> experienceValid b \<longrightarrow>
      fst (submit b fls now db) \<noteq> Response 400 (Failure ''Incomplete optional section data'' None))"
proof -
  have a: "status_code (fst (submit b fls now db)) \<noteq> 200 \<and> snd (submit b fls now db) = db"
    if "\<not> intermediateValid b \<or> \<not> graduationValid b"
  proof -
    from that obtain r where "prepare_submission b fls now = Inl r"
      using invalid_sections_rejected [of b fls now] by blast
    then show ?thesis by (rule rejected_submit)
  qed
  have c: "submit b fls now db =
      (Response 400 (Failure ''Incomplete optional section data'' None), db)"
    if "\<not> intermediateValid b \<or> \<not> graduationValid b" "missingFields b = []"
      "sanitized_integers b = Inr ints" for ints
    using that by (intro prepare_submission_Inl_submit prepare_submission_sections) auto
  have d: "fst (submit b fls now db) \<noteq> Response 400 (Failure ''Incomplete optional section data'' None)"
    if "intermediateValid b" "graduationValid b" "experienceValid b"
    using incomplete_not_sent_when_valid [OF that, of fls now]
    by (auto simp: submit_def caught_def split: sum.splits prod.splits)
  show ?thesis
    using a c d
    by (auto simp: intermediateValid_def graduationValid_def validateEducationSection_iff)
qed

text \<open>
  The claim as stated fails: with only \<open>intermediate_year\<close> filled, and filled with
  \<open>abc\<close>, the group is partially filled and the response is the exception of
  \<open>sanitizeInteger\<close>, status 500, not the incomplete-section error.
\<close>

theorem partial_section_error_counterexample:
  "partially_filled (sample_with [(''intermediate_year'', JStr ''abc'')]) intermediate_fields \<and>
   submit (sample_with [(''intermediate_year'', JStr ''abc'')]) sample_files 7 empty_database =
     (Response 500
        (Failure (''Invalid intermediate_year: '' @ [CHR 0x22] @ ''abc'' @ [CHR 0x22] @
                  '' is not a valid integer'') None),
      empty_database)"
  by code_simp

theorem partial_section_rejected_witness:
  "(partially_filled (sample_with [(''intermediate_board'', JStr ''State Board'')])
      intermediate_fields \<or>
    partially_filled (sample_with [(''intermediate_board'', JStr ''State Board'')])
      graduation_fields) \<and>
   missingFields (sample_with [(''intermediate_board'', JStr ''State Board'')]) = [] \<and>
   sanitized_integers (sample_with [(''intermediate_board'', JStr ''State Board'')]) =
     Inr (Some 2014, None, None, None) \<and>
   submit (sample_with [(''intermediate_board'', JStr ''State Board'')]) sample_files 7
       empty_database =
     (Response 400 (Failure ''Incomplete optional section data'' None), empty_database) \<and>
   submit (sample_with [(''intermediate_board'', JStr ''State Board''),
                        (''intermediate_year'', JStr ''2016''),
                        (''intermediate_percentage'', JStr ''88'')]) sample_files 7
       empty_database \<noteq>
     (Response 400 (Failure ''Incomplete optional section data'' None), empty_database)"
proof -
  let ?b = "sample_with [(''intermediate_board'', JStr ''State Board'')]"
  let ?c = "sample_with [(''intermediate_board'', JStr ''State Board''),
                         (''intermediate_year'', JStr ''2016''),
                         (''intermediate_percentage'', JStr ''88'')]"
  have p: "partially_filled ?b intermediate_fields" by code_simp
  have m: "missingFields ?b = []" by code_simp
  have i: "sanitized_integers ?b = Inr (Some 2014, None, None, None)" by code_simp
  have v: "intermediateValid ?c \<and> graduationValid ?c \<and> experienceValid ?c" by code_simp
  have "fst (submit ?c sample_files 7 empty_database) \<noteq>
      Response 400 (Failure ''Incomplete optional section data'' None)"
    using partial_section_rejected [of ?c sample_files 7 empty_database] v by blast
  then have c: "submit ?c sample_files 7 empty_database \<noteq>
      (Response 400 (Failure ''Incomplete optional section data'' None), empty_database)"
    by auto
  show ?thesis
    using p m i c partial_section_rejected [of ?b sample_files 7 empty_database] by blast
qed

section \<open>The experience section\<close>


lemma truthy_string: "b f = Some (JStr s) \<Longrightarrow> truthy (b f) = (s \<noteq> [])"
  by simp




section \<open>Integer sanitation\<close>














lemma sanitized_integers_fails:
  assumes "sanitizeInteger (b ''ssc_year'') ''ssc_year'' False = Inl e1 \<or>
     sanitizeInteger (b ''intermediate_year'') ''intermediate_year'' True = Inl e2 \<or>
     sanitizeInteger (b ''graduation_year'') ''graduation_year'' True = Inl e3 \<or>
     sanitizeInteger (b ''years_experience'') ''years_experience'' True = Inl e4"
  shows "\<exists>e. sanitized_integers b = Inl e"
  using assms by (auto simp: sanitized_integers_def split: sum.splits)





section \<open>Parsing what was printed\<close>


















lemma delimited_simps [simp]:
  "delimited []" "delimited (CHR '','' # r)" "delimited (CHR '']'' # r)" "delimited (CHR ''}'' # r)"
  by (simp_all add: delimited_def)




section \<open>Inserting a validated submission\<close>




lemma column_names_distinct: "distinct (''id'' # insert_columns)"
  by code_simp







lemma column_lookup:
  assumes "distinct (map fst r)" "(c, v) \<in> set r"
  shows "column r c = v"
  using assms by (simp add: column_def)

lemma length_query_values [simp]:
  "length (query_values b y1 y2 y3 y4 ae rp cp now) = 49"
  by (simp add: query_values_def)

lemma length_insert_columns [simp]: "length insert_columns = 49"
  by (simp add: insert_columns_def)

lemma inserted_row_keys:
  "length vals = 49 \<Longrightarrow> map fst (inserted_row db vals) = ''id'' # insert_columns"
  by (simp add: inserted_row_def)


lemma inserted_row_column:
  assumes "length vals = 49" "i < 49"
  shows "column (inserted_row db vals) (insert_columns ! i) = vals ! i"
proof -
  have "distinct (map fst (inserted_row db vals))"
    using inserted_row_keys [OF assms(1)] column_names_distinct by simp
  moreover have "(insert_columns ! i, vals ! i) \<in> set (zip insert_columns vals)"
    using assms by (auto simp: set_zip)
  then have "(insert_columns ! i, vals ! i) \<in> set (inserted_row db vals)"
    by (simp add: inserted_row_def)
  ultimately show ?thesis by (rule column_lookup)
qed

lemma row_value:
  assumes "insert_columns ! i = c" "i < 49" "query_values b y1 y2 y3 y4 ae rp cp now ! i = v"
  shows "column (inserted_row db (query_values b y1 y2 y3 y4 ae rp cp now)) c = v"
  using inserted_row_column [of "query_values b y1 y2 y3 y4 ae rp cp now" i db] assms by simp




lemma inserted_row_status:
  "column (inserted_row db (query_values b y1 y2 y3 y4 ae rp cp now)) ''status'' =
     SqlText ''Pending''"
  by (rule row_value [where i = 48]) (simp_all add: insert_columns_def query_values_def)



section \<open>The store stays consistent\<close>









lemma map_of_set_column: "map_of (set_column c v r) = (map_of r)(c \<mapsto> v)"
  by (induction r) (auto simp: fun_eq_iff)

lemma column_set_column:
  "column (set_column c v r) c' = (if c' = c then v else column r c')"
  by (simp add: column_def map_of_set_column)

lemma has_id_set_status [simp]: "has_id i (set_column ''status'' v r) = has_id i r"
  by (simp add: has_id_def column_set_column)

lemma update_keeps_column:
  "c \<noteq> ''status'' \<Longrightarrow>
   column (if has_id i r then set_column ''status'' v r else r) c = column r c"
  by (simp add: column_set_column)

lemma consistent_update_status:
  assumes "consistent db"
  shows "consistent (snd (update_status i status db))"
proof -
  let ?g = "\<lambda>v r. if has_id i r then set_column ''status'' v r else r"
  have "consistent (db\<lparr>rows := map (?g v) (rows db)\<rparr>)" for v
  proof -
    have e: "map ((\<lambda>r. column r ''id'') \<circ> ?g v) (rows db) = map (\<lambda>r. column r ''id'') (rows db)"
      "map ((\<lambda>r. column r ''email'') \<circ> ?g v) (rows db) = map (\<lambda>r. column r ''email'') (rows db)"
      by (simp_all add: comp_def update_keeps_column)
    have l: "list_all (\<lambda>r. id_below (serial db) (column r ''id'')) (map (?g v) (rows db))"
      using assms by (auto simp: consistent_def list_all_iff column_set_column)
    show ?thesis using assms l by (simp add: consistent_def e)
  qed
  then show ?thesis
    using assms by (auto simp: update_status_def pg_update_status_def split: list.splits)
qed

lemma consistent_delete:
  assumes "consistent db"
  shows "consistent (fst (snd (delete_application i db fs)))"
proof -
  have "consistent (db\<lparr>rows := filter (\<lambda>r. \<not> has_id i r) (rows db)\<rparr>)"
    using assms by (simp add: consistent_def list_all_iff distinct_map_filter)
  then show ?thesis
    using assms
    by (auto simp: delete_application_def pg_delete_def split: list.splits sum.splits)
qed

lemma consistent_clear: "consistent (fst (snd (clear_applications rf db fs)))"
  by (simp add: clear_applications_def consistent_def)

section \<open>Additional education is stored and read back\<close>













section \<open>Email is unique\<close>


lemma get_application_serial [simp]:
  "get_application i (db\<lparr>serial := n\<rparr>) = get_application i db"
  by (simp add: get_application_def)



section \<open>Updating the status\<close>








section \<open>Experience details of a submission that is not Experienced\<close>



section \<open>Schema synchronisation stops at the first refusal\<close>

lemma until_refused_Nil [simp]: "until_refused r [] = []"
  by (simp add: until_refused_def)












section \<open>File deletion failures\<close>

lemma clear_always_succeeds:
  "fst (clear_applications readdir_fails db fs) = Response 200 Cleared \<and>
   rows (fst (snd (clear_applications readdir_fails db fs))) = [] \<and>
   serial (fst (snd (clear_applications readdir_fails db fs))) = 1"
  by (simp add: clear_applications_def)

lemma unlink_failure_after_delete:
  assumes "filter (has_id i) (rows db) = r # rs"
    and "column r ''resume_path'' = SqlText p" "p \<noteq> []" "fs p = Some Locked"
  shows "fst (delete_application i db fs) =
           Response 500 (Failure (''EPERM: operation not permitted, unlink '' @ [CHR 0x27] @ p @
                                  [CHR 0x27]) None) \<and>
         rows (fst (snd (delete_application i db fs))) = filter (\<lambda>r. \<not> has_id i r) (rows db)"
  using assms
  by (simp add: delete_application_def pg_delete_def unlink_if_exists_def existsSync_def
      unlinkSync_def caught_def)

text \<open>
  C8. Clearing always answers 200 and empties the table, whatever happens to the files.
  Deleting one application does not: \<open>fs.unlinkSync\<close> is called inside the handler's
  \<open>try\<close> after the row was deleted, so when the resume exists and cannot be unlinked the
  handler answers 500 although the row is gone. Here the application with id 1 of the
  sample store is deleted while its resume cannot be unlinked.
\<close>

theorem delete_unlink_failure_at_failing_input:
  "list_ex (has_id 1) (rows sample_database) \<and>
   map (\<lambda>r. column r ''resume_path'') (rows sample_database) =
     [SqlText ''Uploads/resume-1700000000000-1.pdf''] \<and>
   locked_uploads ''Uploads/resume-1700000000000-1.pdf'' = Some Locked \<and>
   fst (delete_application 1 sample_database locked_uploads) =
     Response 500
       (Failure (''EPERM: operation not permitted, unlink '' @ [CHR 0x27] @
                 ''Uploads/resume-1700000000000-1.pdf'' @ [CHR 0x27]) None) \<and>
   rows (fst (snd (delete_application 1 sample_database locked_uploads))) = [] \<and>
   get_application 1 (fst (snd (delete_application 1 sample_database locked_uploads))) =
     Response 404 (Failure ''Application not found'' None)"
  by code_simp

end
